theory Spec2Isabelle
  imports Complex_Main
begin

section \<open>The native capture capability and Node's event emitter\<close>

text \<open>
  A Node \<open>Buffer\<close> is a list of bytes; the native callback may also hand over \<open>null\<close>,
  which is \<open>None\<close> below. An exception is identified by its message.
\<close>

type_synonym buffer = "nat list"
type_synonym exn = string

text \<open>
  The Rust monitor behind a capture handle is opaque (\<open>native-module/index.node\<close>). What
  the TypeScript code can observe of it is the outcome of each call: \<open>getSampleRate()\<close>
  returns a number or throws, \<open>start(cb)\<close> and \<open>stop()\<close> return or throw.
\<close>

record native =
  n_getSampleRate :: "exn + nat"
  n_start :: "exn option"
  n_stop :: "exn option"

datatype evname = EvData | EvError | EvStart | EvStop

datatype event = Data buffer | Error exn | Start | Stop

datatype role = SystemRole | MicRole

text \<open>
  The listeners that \<open>main.ts\<close> registers on a capture handle: the \<open>data\<close> listener
  \<open>(chunk) => this.googleSTT?.write(chunk)\<close> (or \<open>googleSTT_User\<close>), and the
  \<open>error\<close> listener \<open>(err) => console.error(prefix, err)\<close>.
\<close>

datatype listener = WriteTo role | LogError string

datatype level = LLog | LWarn | LError

text \<open>What a capture handle does to the outside world, in order.\<close>

datatype action =
    Console level string
  | NativeStart
  | NativeStop
  | Emit event

section \<open>MicrophoneCapture.ts\<close>

record capture =
  monitor :: "native option"
  isRecording :: bool
  deviceId :: "string option"
  listeners :: "(evname \<times> listener) list"

text \<open>JavaScript's \<open>deviceId || null\<close>: an absent or empty string gives \<open>null\<close>.\<close>

definition orNull :: "string option \<Rightarrow> string option" where
  "orNull d = (case d of None \<Rightarrow> None | Some s \<Rightarrow> (if s = [] then None else Some s))"

text \<open>
  The constructor. Its first argument is the native class \<open>RustMicCapture\<close>, which is
  undefined (\<open>None\<close>) when the native module failed to load; \<open>new RustMicCapture(id)\<close>
  may throw, and then so does the constructor; the line it logged before that is kept
  with the exception.
\<close>

definition new_MicrophoneCapture ::
  "(string option \<Rightarrow> exn + native) option \<Rightarrow> string option
     \<Rightarrow> (exn \<times> action list) + (capture \<times> action list)" where
  "new_MicrophoneCapture RustMicCapture d =
     (case RustMicCapture of
        None \<Rightarrow>
          Inr (\<lparr>monitor = None, isRecording = False, deviceId = orNull d, listeners = []\<rparr>,
               [Console LError ''[MicrophoneCapture] Rust class implementation not found.''])
      | Some mk \<Rightarrow>
          (case mk (orNull d) of
             Inl e \<Rightarrow> Inl (e, [Console LLog ''[MicrophoneCapture] Initialized with device''])
           | Inr m \<Rightarrow>
               Inr (\<lparr>monitor = Some m, isRecording = False, deviceId = orNull d, listeners = []\<rparr>,
                    [Console LLog ''[MicrophoneCapture] Initialized with device''])))"

text \<open>\<open>return this.monitor?.getSampleRate() || 16000\<close>\<close>

definition getSampleRate :: "capture \<Rightarrow> exn + nat" where
  "getSampleRate h =
     (case monitor h of
        None \<Rightarrow> Inr 16000
      | Some m \<Rightarrow>
          (case n_getSampleRate m of
             Inl e \<Rightarrow> Inl e
           | Inr r \<Rightarrow> Inr (if r = 0 then 16000 else r)))"

text \<open>\<open>EventEmitter.on\<close> appends a listener; \<open>listenerCount\<close> counts those of one event.\<close>

definition on :: "capture \<Rightarrow> evname \<Rightarrow> listener \<Rightarrow> capture" where
  "on h n l = h\<lparr>listeners := listeners h @ [(n, l)]\<rparr>"

definition listenerCount :: "capture \<Rightarrow> evname \<Rightarrow> nat" where
  "listenerCount h n = length (filter (\<lambda>p. fst p = n) (listeners h))"

text \<open>
  \<open>EventEmitter.emit('error', e)\<close> throws \<open>e\<close> when no \<open>error\<close> listener is registered
  (Node's documented behaviour); no other \<open>emit\<close> throws, as no listener of \<open>main.ts\<close> does.
\<close>

definition emit_error :: "capture \<Rightarrow> exn \<Rightarrow> exn option" where
  "emit_error h e = (if listenerCount h EvError = 0 then Some e else None)"

text \<open>
  The callback that \<open>start\<close> passes to the native monitor:
  \<open>(chunk) => { if (chunk && chunk.length > 0) this.emit('data', chunk) }\<close>.
\<close>

definition onChunk :: "buffer option \<Rightarrow> action list" where
  "onChunk chunk =
     (case chunk of
        None \<Rightarrow> []
      | Some b \<Rightarrow> (if length b > 0 then [Emit (Data b)] else []))"

text \<open>
  \<open>start()\<close>: the handle afterwards, what it did, and the exception that leaves it (if any).
\<close>

definition MicrophoneCapture_start :: "capture \<Rightarrow> capture \<times> action list \<times> exn option" where
  "MicrophoneCapture_start h =
     (if isRecording h then (h, [], None)
      else case monitor h of
        None \<Rightarrow> (h, [Console LError ''[MicrophoneCapture] Monitor not initialized''], None)
      | Some m \<Rightarrow>
          (case n_start m of
             None \<Rightarrow>
               (h\<lparr>isRecording := True\<rparr>,
                [Console LLog ''[MicrophoneCapture] Starting native capture...'',
                 NativeStart, Emit Start],
                None)
           | Some e \<Rightarrow>
               (h,
                [Console LLog ''[MicrophoneCapture] Starting native capture...'',
                 NativeStart,
                 Console LError ''[MicrophoneCapture] Failed to start:'',
                 Emit (Error e)],
                emit_error h e)))"

text \<open>\<open>stop()\<close> has no path that throws: the native \<open>stop\<close> is inside \<open>try\<close>.\<close>

definition MicrophoneCapture_stop :: "capture \<Rightarrow> capture \<times> action list" where
  "MicrophoneCapture_stop h =
     (if \<not> isRecording h then (h, [])
      else
        (h\<lparr>monitor := None, isRecording := False\<rparr>,
         [Console LLog ''[MicrophoneCapture] Stopping capture...'']
         @ (case monitor h of
              None \<Rightarrow> []
            | Some m \<Rightarrow>
                NativeStop #
                (case n_stop m of
                   None \<Rightarrow> []
                 | Some e \<Rightarrow> [Console LError ''[MicrophoneCapture] Error stopping:'']))
         @ [Emit Stop]))"

section \<open>Collaborators of main.ts\<close>

text \<open>
  Modelled from the spec: \<open>GoogleSTT\<close> (\<open>electron/audio/GoogleSTT.ts\<close> is not among the
  sources). By sections 4.1 and 6 of the specification \<open>setSampleRate\<close> configures the
  rate, \<open>write\<close> consumes a chunk, and \<open>start\<close> and \<open>stop\<close> are idempotent and never
  throw. \<open>sttWritten\<close> is the log of the chunks written, each with the rate that was
  configured when it arrived.
\<close>

record stt =
  sampleRate :: nat
  listening :: bool
  sttWritten :: "(nat \<times> buffer) list"

definition GoogleSTT_setSampleRate :: "nat \<Rightarrow> stt \<Rightarrow> stt" where
  "GoogleSTT_setSampleRate r t = t\<lparr>sampleRate := r\<rparr>"

definition GoogleSTT_write :: "buffer \<Rightarrow> stt \<Rightarrow> stt" where
  "GoogleSTT_write b t = t\<lparr>sttWritten := sttWritten t @ [(sampleRate t, b)]\<rparr>"

definition GoogleSTT_start :: "stt \<Rightarrow> stt" where
  "GoogleSTT_start t = (if listening t then t else t\<lparr>listening := True\<rparr>)"

definition GoogleSTT_stop :: "stt \<Rightarrow> stt" where
  "GoogleSTT_stop t = (if listening t then t\<lparr>listening := False\<rparr> else t)"

text \<open>The \<open>transcript\<close> event of a stream, and the object the router builds from it.\<close>

datatype speaker = interviewer | user

record transcriptEvent =
  te_text :: string
  isFinal :: bool
  te_confidence :: real

record segment =
  speaker :: speaker
  segText :: string
  timestamp :: nat
  final :: bool
  confidence :: real

datatype window = Launcher | Overlay

text \<open>What \<open>DatabaseManager\<close> returns for a stored meeting, as far as \<open>main.ts\<close> reads it.\<close>

record transcriptRow =
  tr_speaker :: string
  tr_text :: string
  tr_timestamp :: nat

record detailedSummary =
  keyPoints :: "string list option"
  actionItems :: "string list option"

record meeting =
  meeting_id :: nat
  transcript :: "transcriptRow list option"
  detailedSummary :: "detailedSummary option"

text \<open>
  The environment of the orchestrator: the native classes (\<open>None\<close> when the module did not
  load), the clock (\<open>dateNow k\<close> is what the \<open>k\<close>-th call of \<open>Date.now()\<close> returns), and
  the answers of the database and of \<open>RAGManager.processMeeting\<close>, each of which may throw.
  \<open>RustSystemCapture\<close> stands for the native class behind \<open>SystemAudioCapture\<close>.
\<close>

record env =
  RustMicCapture :: "(string option \<Rightarrow> exn + native) option"
  RustSystemCapture :: "(string option \<Rightarrow> exn + native) option"
  dateNow :: "nat \<Rightarrow> nat"
  getRecentMeetings :: "exn + nat list"
  getMeetingDetails :: "nat \<Rightarrow> exn + meeting option"
  processMeeting :: "nat \<Rightarrow> transcriptRow list \<Rightarrow> string option \<Rightarrow> exn + nat"

text \<open>Everything the orchestrator does that another component can observe, in order.\<close>

datatype effect =
    Print level string
  | New role "string option"
  | Capture role action
  | CaptureRate role nat
  | Subscribed role evname
  | SttSetSampleRate role nat
  | SttWrite role nat buffer
  | SttStart role
  | SttStop role
  | SetMeetingMetadata
  | HandleTranscript segment
  | WindowSend window segment
  | StopMeeting
  | ProcessMeeting nat "transcriptRow list" "string option"

section \<open>main.ts: the state of AppState\<close>

text \<open>
  The four pipeline fields of \<open>AppState\<close>, whether \<open>ragManager\<close> is set, and the trace.
  \<open>clockReads\<close> counts the calls of \<open>Date.now()\<close> so far.
\<close>

text \<open>
  Modelled from the spec: \<open>WindowHelper\<close> is not among the sources; \<open>launcherWindow\<close> and
  \<open>overlayWindow\<close> say whether its getter returns a window (a closed or absent surface is
  \<open>null\<close>, section 4.3).
\<close>

text \<open>
  Modelled from the spec: \<open>SystemAudioCapture\<close> is not among the sources either; by
  section 4.1 it obeys the same handle contract, so it is a \<open>capture\<close> like the microphone.
\<close>

record appState =
  systemAudioCapture :: "capture option"
  microphoneCapture :: "capture option"
  googleSTT :: "stt option"
  googleSTT_User :: "stt option"
  ragManager :: bool
  launcherWindow :: bool
  overlayWindow :: bool
  clockReads :: nat
  trace :: "effect list"

definition getCapture :: "role \<Rightarrow> appState \<Rightarrow> capture option" where
  "getCapture r s = (case r of SystemRole \<Rightarrow> systemAudioCapture s | MicRole \<Rightarrow> microphoneCapture s)"

definition setCapture :: "role \<Rightarrow> capture option \<Rightarrow> appState \<Rightarrow> appState" where
  "setCapture r c s =
     (case r of SystemRole \<Rightarrow> s\<lparr>systemAudioCapture := c\<rparr> | MicRole \<Rightarrow> s\<lparr>microphoneCapture := c\<rparr>)"

definition getSTT :: "role \<Rightarrow> appState \<Rightarrow> stt option" where
  "getSTT r s = (case r of SystemRole \<Rightarrow> googleSTT s | MicRole \<Rightarrow> googleSTT_User s)"

definition setSTT :: "role \<Rightarrow> stt option \<Rightarrow> appState \<Rightarrow> appState" where
  "setSTT r t s =
     (case r of SystemRole \<Rightarrow> s\<lparr>googleSTT := t\<rparr> | MicRole \<Rightarrow> s\<lparr>googleSTT_User := t\<rparr>)"

definition addTrace :: "effect list \<Rightarrow> appState \<Rightarrow> appState" where
  "addTrace es s = s\<lparr>trace := trace s @ es\<rparr>"

definition newCapture ::
  "env \<Rightarrow> role \<Rightarrow> string option \<Rightarrow> (exn \<times> action list) + (capture \<times> action list)" where
  "newCapture env r d =
     new_MicrophoneCapture
       (case r of SystemRole \<Rightarrow> RustSystemCapture env | MicRole \<Rightarrow> RustMicCapture env) d"

subsection \<open>Listeners\<close>

fun runListener :: "listener \<Rightarrow> event \<Rightarrow> appState \<Rightarrow> appState" where
  "runListener (WriteTo r) (Data b) s =
     (case getSTT r s of
        None \<Rightarrow> s
      | Some t \<Rightarrow> addTrace [SttWrite r (sampleRate t) b] (setSTT r (Some (GoogleSTT_write b t)) s))"
| "runListener (LogError p) (Error e) s = addTrace [Print LError p] s"
| "runListener l ev s = s"

definition evnameOf :: "event \<Rightarrow> evname" where
  "evnameOf ev = (case ev of Data b \<Rightarrow> EvData | Error e \<Rightarrow> EvError | Start \<Rightarrow> EvStart | Stop \<Rightarrow> EvStop)"

definition dispatch :: "capture \<Rightarrow> event \<Rightarrow> appState \<Rightarrow> appState" where
  "dispatch h ev s =
     fold (\<lambda>l. runListener l ev) (map snd (filter (\<lambda>p. fst p = evnameOf ev) (listeners h))) s"

text \<open>The actions of the handle of role \<open>r\<close> enter the trace; an emitted event runs its listeners.\<close>

fun perform :: "role \<Rightarrow> capture \<Rightarrow> action list \<Rightarrow> appState \<Rightarrow> appState" where
  "perform r h [] s = s"
| "perform r h (a # as) s =
     perform r h as
       (case a of
          Emit ev \<Rightarrow> dispatch h ev (addTrace [Capture r a] s)
        | _ \<Rightarrow> addTrace [Capture r a] s)"

text \<open>The native monitor of the current handle of role \<open>r\<close> calls back with a chunk.\<close>

definition nativeChunk :: "role \<Rightarrow> buffer option \<Rightarrow> appState \<Rightarrow> appState" where
  "nativeChunk r chunk s =
     (case getCapture r s of None \<Rightarrow> s | Some h \<Rightarrow> perform r h (onChunk chunk) s)"

subsection \<open>The transcript listeners of setupSystemAudioPipeline\<close>

text \<open>
  Both listeners have the same body but for the literal speaker: the object for
  \<open>intelligenceManager.handleTranscript\<close> reads \<open>Date.now()\<close>, the \<open>payload\<close> for the
  windows reads it again, and \<open>getLauncherWindow()?.\<close>, \<open>getOverlayWindow()?.\<close> skip an
  absent window.
\<close>

definition routeTranscript :: "env \<Rightarrow> speaker \<Rightarrow> transcriptEvent \<Rightarrow> appState \<Rightarrow> appState" where
  "routeTranscript env sp ev s =
     (let seg = \<lparr>speaker = sp, segText = te_text ev, timestamp = dateNow env (clockReads s),
                 final = isFinal ev, confidence = te_confidence ev\<rparr>;
          payload = \<lparr>speaker = sp, segText = te_text ev, timestamp = dateNow env (Suc (clockReads s)),
                     final = isFinal ev, confidence = te_confidence ev\<rparr>
      in s\<lparr>clockReads := clockReads s + 2,
           trace := trace s @ [HandleTranscript seg]
                    @ (if launcherWindow s then [WindowSend Launcher payload] else [])
                    @ (if overlayWindow s then [WindowSend Overlay payload] else [])\<rparr>)"

definition googleSTT_onTranscript :: "env \<Rightarrow> transcriptEvent \<Rightarrow> appState \<Rightarrow> appState" where
  "googleSTT_onTranscript env = routeTranscript env interviewer"

definition googleSTT_User_onTranscript :: "env \<Rightarrow> transcriptEvent \<Rightarrow> appState \<Rightarrow> appState" where
  "googleSTT_User_onTranscript env = routeTranscript env user"

text \<open>The stream of role \<open>r\<close> emits \<open>transcript\<close>: its listener runs.\<close>

definition sttTranscript :: "env \<Rightarrow> role \<Rightarrow> transcriptEvent \<Rightarrow> appState \<Rightarrow> appState" where
  "sttTranscript env r =
     (case r of SystemRole \<Rightarrow> googleSTT_onTranscript env | MicRole \<Rightarrow> googleSTT_User_onTranscript env)"

subsection \<open>reconfigureAudio\<close>

text \<open>
  The body of one \<open>try\<close> block: construct the source and store it in the field, read its
  rate, configure the paired stream (\<open>this.googleSTT?.setSampleRate(rate)\<close>), subscribe to
  \<open>data\<close> and \<open>error\<close>. The four blocks of the source differ in the role, the device
  argument and the text logged with the rate. An exception leaves the block at the call
  that throws, with what was assigned before it. The texts of the logs are shortened and
  do not name the role. \<open>New\<close>, \<open>CaptureRate\<close> and \<open>Subscribed\<close> record the calls
  of the constructor, of \<open>getSampleRate\<close> and of \<open>on\<close> in the trace.
\<close>

definition attach :: "env \<Rightarrow> role \<Rightarrow> string \<Rightarrow> string option \<Rightarrow> appState \<Rightarrow> appState \<times> exn option" where
  "attach env r label d s =
     (case newCapture env r d of
        Inl (e, acts) \<Rightarrow> (addTrace (New r d # map (Capture r) acts) s, Some e)
      | Inr (h, acts) \<Rightarrow>
          (let s1 = setCapture r (Some h) (addTrace (New r d # map (Capture r) acts) s)
           in case getSampleRate h of
                Inl e \<Rightarrow> (s1, Some e)
              | Inr rate \<Rightarrow>
                  (let s2 = addTrace [CaptureRate r rate, Print LLog label] s1;
                       s3 = (case getSTT r s2 of
                               None \<Rightarrow> s2
                             | Some t \<Rightarrow>
                                 addTrace [SttSetSampleRate r rate]
                                   (setSTT r (Some (GoogleSTT_setSampleRate rate t)) s2));
                       h' = on (on h EvData (WriteTo r)) EvError (LogError ''[Main] Capture Error:'')
                   in (addTrace [Subscribed r EvData, Subscribed r EvError]
                         (setCapture r (Some h') s3), None))))"

text \<open>
  One role of \<open>reconfigureAudio\<close>: stop and drop the old source, try the preferred device
  (\<open>deviceId || undefined\<close>), on an exception warn and try the default device, on a second
  exception log an error. No exception leaves it.
\<close>

definition reconfigureRole :: "env \<Rightarrow> role \<Rightarrow> string option \<Rightarrow> appState \<Rightarrow> appState" where
  "reconfigureRole env r d s =
     (let s1 = (case getCapture r s of
                  None \<Rightarrow> s
                | Some h \<Rightarrow> setCapture r None (perform r h (snd (MicrophoneCapture_stop h)) s));
          s2 = addTrace [Print LLog ''[Main] Initializing capture...''] s1
      in case attach env r ''[Main] Capture rate'' (orNull d) s2 of
           (s3, None) \<Rightarrow> addTrace [Print LLog ''[Main] Capture initialized.''] s3
         | (s3, Some e) \<Rightarrow>
             (case attach env r ''[Main] Capture (Default) rate'' None
                     (addTrace [Print LWarn ''[Main] Failed to initialize capture with preferred ID. Falling back to default.''] s3) of
                (s4, None) \<Rightarrow> s4
              | (s4, Some e2) \<Rightarrow>
                  addTrace [Print LError ''[Main] Failed to initialize capture (Default):''] s4))"

definition reconfigureAudio :: "env \<Rightarrow> string option \<Rightarrow> string option \<Rightarrow> appState \<Rightarrow> appState" where
  "reconfigureAudio env inputDeviceId outputDeviceId s =
     reconfigureRole env MicRole inputDeviceId
       (reconfigureRole env SystemRole outputDeviceId
          (addTrace [Print LLog ''[Main] Reconfiguring Audio''] s))"

subsection \<open>startMeeting and endMeeting\<close>

record audioPrefs =
  inputDeviceId :: "string option"
  outputDeviceId :: "string option"

record metadata =
  audio :: "audioPrefs option"

text \<open>\<open>this.systemAudioCapture?.start()\<close>: an exception of \<open>start\<close> leaves \<open>startMeeting\<close>.\<close>

definition startCapture :: "role \<Rightarrow> appState \<Rightarrow> appState \<times> exn option" where
  "startCapture r s =
     (case getCapture r s of
        None \<Rightarrow> (s, None)
      | Some h \<Rightarrow>
          (case MicrophoneCapture_start h of
             (h', acts, x) \<Rightarrow> (perform r h acts (setCapture r (Some h') s), x)))"

definition startSTT :: "role \<Rightarrow> appState \<Rightarrow> appState" where
  "startSTT r s =
     (case getSTT r s of
        None \<Rightarrow> s
      | Some t \<Rightarrow>
          addTrace (if listening t then [] else [SttStart r]) (setSTT r (Some (GoogleSTT_start t)) s))"

definition startMeeting :: "env \<Rightarrow> metadata option \<Rightarrow> appState \<Rightarrow> appState \<times> exn option" where
  "startMeeting env md s =
     (let s1 = addTrace [Print LLog ''[Main] Starting Meeting...''] s;
          s2 = (case md of
                  None \<Rightarrow> s1
                | Some m \<Rightarrow>
                    (case audio m of
                       None \<Rightarrow> addTrace [SetMeetingMetadata] s1
                     | Some a \<Rightarrow>
                         reconfigureAudio env (inputDeviceId a) (outputDeviceId a)
                           (addTrace [SetMeetingMetadata] s1)))
      in case startCapture SystemRole s2 of
           (s3, Some e) \<Rightarrow> (s3, Some e)
         | (s3, None) \<Rightarrow>
             (case startCapture MicRole (startSTT SystemRole s3) of
                (s4, Some e) \<Rightarrow> (s4, Some e)
              | (s4, None) \<Rightarrow> (startSTT MicRole s4, None)))"

definition stopCapture :: "role \<Rightarrow> appState \<Rightarrow> appState" where
  "stopCapture r s =
     (case getCapture r s of
        None \<Rightarrow> s
      | Some h \<Rightarrow>
          (case MicrophoneCapture_stop h of
             (h', acts) \<Rightarrow> perform r h acts (setCapture r (Some h') s)))"

definition stopSTT :: "role \<Rightarrow> appState \<Rightarrow> appState" where
  "stopSTT r s =
     (case getSTT r s of
        None \<Rightarrow> s
      | Some t \<Rightarrow>
          addTrace (if listening t then [SttStop r] else []) (setSTT r (Some (GoogleSTT_stop t)) s))"

text \<open>\<open>[...keyPoints, ...actionItems.map(a => `Action: ${a}`)].join('. ')\<close>\<close>

fun join :: "string \<Rightarrow> string list \<Rightarrow> string" where
  "join sep [] = []"
| "join sep [x] = x"
| "join sep (x # y # ys) = x @ sep @ join sep (y # ys)"

definition summaryOf :: "meeting \<Rightarrow> string option" where
  "summaryOf m =
     (case detailedSummary m of
        None \<Rightarrow> None
      | Some d \<Rightarrow>
          Some (join ''. ''
                  ((case keyPoints d of None \<Rightarrow> [] | Some ks \<Rightarrow> ks)
                   @ map (\<lambda>a. ''Action: '' @ a) (case actionItems d of None \<Rightarrow> [] | Some as \<Rightarrow> as))))"

definition ragSegment :: "transcriptRow \<Rightarrow> transcriptRow" where
  "ragSegment t = \<lparr>tr_speaker = tr_speaker t, tr_text = tr_text t, tr_timestamp = tr_timestamp t\<rparr>"

text \<open>
  \<open>processCompletedMeetingForRAG\<close>: everything after the first guard is inside \<open>try\<close>, and
  the \<open>catch\<close> logs.
\<close>

definition ragFailed :: "appState \<Rightarrow> appState" where
  "ragFailed s = addTrace [Print LError ''[AppState] Failed to process meeting for RAG:''] s"

definition processCompletedMeetingForRAG :: "env \<Rightarrow> appState \<Rightarrow> appState" where
  "processCompletedMeetingForRAG env s =
     (if \<not> ragManager s then s
      else case getRecentMeetings env of
        Inl e \<Rightarrow> ragFailed s
      | Inr [] \<Rightarrow> s
      | Inr (i # rest) \<Rightarrow>
          (case getMeetingDetails env i of
             Inl e \<Rightarrow> ragFailed s
           | Inr None \<Rightarrow> s
           | Inr (Some m) \<Rightarrow>
               (case transcript m of
                  None \<Rightarrow> s
                | Some [] \<Rightarrow> s
                | Some (t # ts) \<Rightarrow>
                    (let segments = map ragSegment (t # ts);
                         s1 = addTrace [ProcessMeeting (meeting_id m) segments (summaryOf m)] s
                     in case processMeeting env (meeting_id m) segments (summaryOf m) of
                          Inl e \<Rightarrow> ragFailed s1
                        | Inr n \<Rightarrow> addTrace [Print LLog ''[AppState] RAG processed meeting''] s1))))"

text \<open>
  Modelled from the spec: \<open>IntelligenceManager\<close> is not among the sources. Its
  \<open>setMeetingMetadata\<close> and \<open>stopMeeting\<close> (the session finalization of section 4.4) are
  calls into a collaborator that return; they appear in the trace.
\<close>

definition endMeeting :: "env \<Rightarrow> appState \<Rightarrow> appState" where
  "endMeeting env s =
     processCompletedMeetingForRAG env
       (addTrace [StopMeeting]
          (stopSTT MicRole
             (stopCapture MicRole
                (stopSTT SystemRole
                   (stopCapture SystemRole
                      (addTrace [Print LLog ''[Main] Ending Meeting...''] s))))))"

section \<open>Vocabulary of the properties\<close>

text \<open>The effects that a step from \<open>s\<close> to \<open>s'\<close> added to the trace.\<close>
definition newEffects :: "appState \<Rightarrow> appState \<Rightarrow> effect list" where
  "newEffects s s' = drop (length (trace s)) (trace s')"

text \<open>
  The order that sample-rate propagation asks for, read off a list of effects for one
  role: \<open>src\<close> is the rate the newest source of the role reported (\<open>None\<close> from its
  construction until it reports), \<open>cfg\<close> the rate last configured on the stream of the
  role. A \<open>data\<close> subscription of the role is in order when the source has reported and
  the stream is configured with that rate.
\<close>
fun rateStep :: "role \<Rightarrow> effect \<Rightarrow> nat option \<times> nat option \<times> bool \<Rightarrow> nat option \<times> nat option \<times> bool" where
  "rateStep r (New r' d) (src, cfg, ok) = (if r' = r then (None, cfg, ok) else (src, cfg, ok))"
| "rateStep r (CaptureRate r' R) (src, cfg, ok) = (if r' = r then (Some R, cfg, ok) else (src, cfg, ok))"
| "rateStep r (SttSetSampleRate r' R) (src, cfg, ok) = (if r' = r then (src, Some R, ok) else (src, cfg, ok))"
| "rateStep r (Subscribed r' n) (src, cfg, ok) =
     (if r' = r \<and> n = EvData then (src, cfg, ok \<and> src \<noteq> None \<and> cfg = src) else (src, cfg, ok))"
| "rateStep r e st = st"

definition rate_set_before_data :: "role \<Rightarrow> effect list \<Rightarrow> bool" where
  "rate_set_before_data r es = snd (snd (fold (rateStep r) es (None, None, True)))"

text \<open>A step extends the trace and leaves the verdict of \<open>rateStep\<close> as it was.\<close>
definition rateFx :: "role \<Rightarrow> appState \<Rightarrow> appState \<Rightarrow> bool" where
  "rateFx r s s' = (\<forall>src cfg ok. \<exists>es src' cfg'. trace s' = trace s @ es
           \<and> fold (rateStep r) es (src, cfg, ok) = (src', cfg', ok))"

text \<open>
  The source of a role is absent, or has no listener yet, or has the two listeners of
  \<open>main.ts\<close> and, when the stream of the role exists, reports the rate the stream is
  configured with.
\<close>
definition wired :: "role \<Rightarrow> appState \<Rightarrow> bool" where
  "wired r s =
     (case getCapture r s of
        None \<Rightarrow> True
      | Some h \<Rightarrow>
          listeners h = []
          \<or> (listeners h = [(EvData, WriteTo r), (EvError, LogError ''[Main] Capture Error:'')]
             \<and> (case getSTT r s of None \<Rightarrow> True | Some t \<Rightarrow> getSampleRate h = Inr (sampleRate t))))"

text \<open>The first step of one role of \<open>reconfigureAudio\<close>: stop and drop the old source.\<close>
definition dropOld :: "role \<Rightarrow> appState \<Rightarrow> appState" where
  "dropOld r s = (case getCapture r s of
                  None \<Rightarrow> s
                | Some h \<Rightarrow> setCapture r None (perform r h (snd (MicrophoneCapture_stop h)) s))"

definition unwired :: "role \<Rightarrow> appState \<Rightarrow> bool" where
  "unwired r s = (case getCapture r s of None \<Rightarrow> True | Some h \<Rightarrow> listeners h = [])"

definition deviceFor :: "role \<Rightarrow> string option \<Rightarrow> string option \<Rightarrow> string option" where
  "deviceFor r inp outp = (case r of SystemRole \<Rightarrow> outp | MicRole \<Rightarrow> inp)"

text \<open>No component of the role is active: the source is absent or not recording, the stream absent or not listening.\<close>
definition idle :: "role \<Rightarrow> appState \<Rightarrow> bool" where
  "idle r s =
     ((case getCapture r s of None \<Rightarrow> True | Some h \<Rightarrow> \<not> isRecording h)
      \<and> (case getSTT r s of None \<Rightarrow> True | Some t \<Rightarrow> \<not> listening t))"





text \<open>
  Concrete inputs: a native monitor that works, an environment in which every device can
  be opened and the database holds one meeting with one transcript row, and the state
  after \<open>setupSystemAudioPipeline\<close> succeeded (both sources wired and paused, both streams
  idle, the launcher window open); \<open>activeState\<close> is that state in a running
  meeting, both sources recording and both streams listening.
\<close>
definition okNative :: native where
  "okNative = \<lparr>n_getSampleRate = Inr 48000, n_start = None, n_stop = None\<rparr>"

definition helloRow :: transcriptRow where
  "helloRow = \<lparr>tr_speaker = ''user'', tr_text = ''hello'', tr_timestamp = 1000\<rparr>"

definition demoEnv :: env where
  "demoEnv =
     \<lparr>RustMicCapture = Some (\<lambda>d. Inr okNative),
      RustSystemCapture = Some (\<lambda>d. Inr okNative),
      dateNow = (\<lambda>k. 1000 + k),
      getRecentMeetings = Inr [7],
      getMeetingDetails =
        (\<lambda>i. Inr (Some \<lparr>meeting_id = i, transcript = Some [helloRow], detailedSummary = None\<rparr>)),
      processMeeting = (\<lambda>i segs sm. Inr 1)\<rparr>"

definition wiredCapture :: "role \<Rightarrow> capture" where
  "wiredCapture r =
     \<lparr>monitor = Some okNative, isRecording = False, deviceId = None,
      listeners = [(EvData, WriteTo r), (EvError, LogError ''[Main] Capture Error:'')]\<rparr>"

definition idleSTT :: stt where
  "idleSTT = \<lparr>sampleRate = 16000, listening = False, sttWritten = []\<rparr>"

definition readyState :: appState where
  "readyState =
     \<lparr>systemAudioCapture = Some (wiredCapture SystemRole),
      microphoneCapture = Some (wiredCapture MicRole),
      googleSTT = Some idleSTT,
      googleSTT_User = Some idleSTT,
      ragManager = True,
      launcherWindow = True,
      overlayWindow = False,
      clockReads = 0,
      trace = []\<rparr>"

definition listeningSTT :: stt where
  "listeningSTT = \<lparr>sampleRate = 16000, listening = True, sttWritten = []\<rparr>"

definition activeState :: appState where
  "activeState =
     \<lparr>systemAudioCapture = Some (wiredCapture SystemRole\<lparr>isRecording := True\<rparr>),
      microphoneCapture = Some (wiredCapture MicRole\<lparr>isRecording := True\<rparr>),
      googleSTT = Some listeningSTT,
      googleSTT_User = Some listeningSTT,
      ragManager = True,
      launcherWindow = True,
      overlayWindow = False,
      clockReads = 0,
      trace = []\<rparr>"

definition helloEvent :: transcriptEvent where
  "helloEvent = \<lparr>te_text = ''hello'', isFinal = False, te_confidence = 0.4\<rparr>"

definition roleView :: "role \<Rightarrow> appState \<Rightarrow> capture option \<times> stt option" where
  "roleView r s = (getCapture r s, getSTT r s)"

definition fallbackWarning :: string where
  "fallbackWarning = ''[Main] Failed to initialize capture with preferred ID. Falling back to default.''"

text \<open>
  A microphone \<open>mic-2\<close> that can be opened but fails from then on, with no default input
  device; and the metadata of a meeting that prefers it.
\<close>
definition lostNative :: native where
  "lostNative = \<lparr>n_getSampleRate = Inl ''device lost'', n_start = Some ''device lost'', n_stop = None\<rparr>"

definition lostEnv :: env where
  "lostEnv =
     demoEnv\<lparr>RustMicCapture :=
       Some (\<lambda>d. if d = Some ''mic-2'' then Inr lostNative else Inl ''no default input device'')\<rparr>"

definition mic2Meeting :: metadata where
  "mic2Meeting = \<lparr>audio = Some \<lparr>inputDeviceId = Some ''mic-2'', outputDeviceId = None\<rparr>\<rparr>"


text \<open>
  An environment in which \<open>mic-2\<close> cannot be opened but the default input device can,
  and one in which no input device can be opened.
\<close>
definition noMic2Env :: env where
  "noMic2Env =
     demoEnv\<lparr>RustMicCapture :=
       Some (\<lambda>d. if d = Some ''mic-2'' then Inl ''mic-2 not found'' else Inr okNative)\<rparr>"

definition noMicEnv :: env where
  "noMicEnv = demoEnv\<lparr>RustMicCapture := Some (\<lambda>d. Inl ''no input device'')\<rparr>"

section \<open>Properties\<close>

lemma get_set [simp]:
  "getCapture r (setCapture r' c s) = (if r = r' then c else getCapture r s)"
  "getCapture r (setSTT r' t s) = getCapture r s"
  "getCapture r (addTrace es s) = getCapture r s"
  "getSTT r (setSTT r' t s) = (if r = r' then t else getSTT r s)"
  "getSTT r (setCapture r' c s) = getSTT r s"
  "getSTT r (addTrace es s) = getSTT r s"
  "trace (setCapture r c s) = trace s"
  "trace (setSTT r t s) = trace s"
  "trace (addTrace es s) = trace s @ es"
  by (cases r; cases r'; simp add: getCapture_def setCapture_def getSTT_def setSTT_def addTrace_def)+

lemma other_fields [simp]:
  "ragManager (setCapture r c s) = ragManager s"
  "ragManager (setSTT r t s) = ragManager s"
  "ragManager (addTrace es s) = ragManager s"
  by (cases r; simp add: setCapture_def setSTT_def addTrace_def)+

lemma fold_runListener_quiet:
  "ev = Start \<or> ev = Stop \<Longrightarrow> fold (\<lambda>l. runListener l ev) ls s = s"
  by (induction ls) (auto elim: runListener.elims)

lemma dispatch_quiet [simp]: "dispatch h Start s = s" "dispatch h Stop s = s"
  by (simp_all add: dispatch_def fold_runListener_quiet)

lemma addTrace_addTrace [simp]: "addTrace es (addTrace fs s) = addTrace (fs @ es) s"
  by (simp add: addTrace_def)

lemma addTrace_Nil [simp]: "addTrace [] s = s"
  by (simp add: addTrace_def)

lemma perform_stop:
  "perform r h (snd (MicrophoneCapture_stop h)) s = addTrace (map (Capture r) (snd (MicrophoneCapture_stop h))) s"
  by (simp add: MicrophoneCapture_stop_def split: option.splits)

lemma fold_rateStep_Capture [simp]: "fold (rateStep r) (map (Capture r') acts) st = st"
  by (induction acts) auto

lemma attach_rate:
  assumes "r' = r \<longrightarrow> getSTT r s \<noteq> None"
  shows "\<exists>es src' cfg'. trace (fst (attach env r' l d s)) = trace s @ es
           \<and> fold (rateStep r) es (src, cfg, ok) = (src', cfg', ok)"
  using assms
  by (auto simp: attach_def Let_def split: sum.splits option.splits prod.splits)

lemma attach_stt_none [simp]:
  "(getSTT r (fst (attach env r' l d s)) = None) = (getSTT r s = None)"
  by (auto simp: attach_def Let_def split: sum.splits option.splits prod.splits)

lemma rateFx_refl: "rateFx r s s"
  by (auto simp: rateFx_def)

lemma rateFx_trans: "rateFx r s s' \<Longrightarrow> rateFx r s' s'' \<Longrightarrow> rateFx r s s''"
  unfolding rateFx_def
proof (intro allI)
  fix src cfg ok
  assume a: "\<forall>src cfg ok. \<exists>es src' cfg'. trace s' = trace s @ es \<and> fold (rateStep r) es (src, cfg, ok) = (src', cfg', ok)"
    and b: "\<forall>src cfg ok. \<exists>es src' cfg'. trace s'' = trace s' @ es \<and> fold (rateStep r) es (src, cfg, ok) = (src', cfg', ok)"
  from a obtain es1 src1 cfg1 where 1: "trace s' = trace s @ es1"
    "fold (rateStep r) es1 (src, cfg, ok) = (src1, cfg1, ok)" by blast
  from b obtain es2 src2 cfg2 where 2: "trace s'' = trace s' @ es2"
    "fold (rateStep r) es2 (src1, cfg1, ok) = (src2, cfg2, ok)" by blast
  have "trace s'' = trace s @ (es1 @ es2)" using 1 2 by simp
  moreover have "fold (rateStep r) (es1 @ es2) (src, cfg, ok) = (src2, cfg2, ok)" using 1 2 by simp
  ultimately show "\<exists>es src' cfg'. trace s'' = trace s @ es \<and> fold (rateStep r) es (src, cfg, ok) = (src', cfg', ok)"
    by blast
qed

lemma rateFx_print: "rateFx r s (addTrace [Print l m] s)"
  by (auto simp: rateFx_def)

lemma rateFx_captures: "trace s' = trace s @ map (Capture r') acts \<Longrightarrow> rateFx r s s'"
  by (auto simp: rateFx_def)

lemma rateFx_attach: "r' = r \<longrightarrow> getSTT r s \<noteq> None \<Longrightarrow> rateFx r s (fst (attach env r' l d s))"
  unfolding rateFx_def using attach_rate by blast

lemma dropOld_simps [simp]:
  "getCapture r' (dropOld r s) = (if r' = r then None else getCapture r' s)"
  "getSTT r' (dropOld r s) = getSTT r' s"
  by (auto simp: dropOld_def perform_stop split: option.splits)

lemma rateFx_dropOld: "rateFx r s (dropOld r' s)"
  by (auto simp: dropOld_def perform_stop rateFx_refl intro: rateFx_captures split: option.splits)

lemma reconfigureRole_alt:
  "reconfigureRole env r d s =
     (case attach env r ''[Main] Capture rate'' (orNull d)
             (addTrace [Print LLog ''[Main] Initializing capture...''] (dropOld r s)) of
           (s3, None) \<Rightarrow> addTrace [Print LLog ''[Main] Capture initialized.''] s3
         | (s3, Some e) \<Rightarrow>
             (case attach env r ''[Main] Capture (Default) rate'' None
                     (addTrace [Print LWarn ''[Main] Failed to initialize capture with preferred ID. Falling back to default.''] s3) of
                (s4, None) \<Rightarrow> s4
              | (s4, Some e2) \<Rightarrow>
                  addTrace [Print LError ''[Main] Failed to initialize capture (Default):''] s4))"
  by (simp add: reconfigureRole_def dropOld_def Let_def)

lemma rateFx_reconfigureRole:
  assumes "r' = r \<longrightarrow> getSTT r s \<noteq> None"
  shows "rateFx r s (reconfigureRole env r' d s)"
proof -
  define s2 where "s2 = addTrace [Print LLog ''[Main] Initializing capture...''] (dropOld r' s)"
  define A where "A = attach env r' ''[Main] Capture rate'' (orNull d) s2"
  define s3w where "s3w = addTrace [Print LWarn ''[Main] Failed to initialize capture with preferred ID. Falling back to default.''] (fst A)"
  define B where "B = attach env r' ''[Main] Capture (Default) rate'' None s3w"
  have stt2: "r' = r \<longrightarrow> getSTT r s2 \<noteq> None" using assms by (simp add: s2_def)
  have 1: "rateFx r s s2"
    unfolding s2_def by (rule rateFx_trans [OF rateFx_dropOld rateFx_print])
  have 2: "rateFx r s2 (fst A)" unfolding A_def by (rule rateFx_attach [OF stt2])
  have stt3: "r' = r \<longrightarrow> getSTT r s3w \<noteq> None" using stt2 by (simp add: s3w_def A_def)
  have 3: "rateFx r (fst A) s3w" unfolding s3w_def by (rule rateFx_print)
  have 4: "rateFx r s3w (fst B)" unfolding B_def by (rule rateFx_attach [OF stt3])
  have 12: "rateFx r s (fst A)" by (rule rateFx_trans [OF 1 2])
  have 14: "rateFx r s (fst B)" by (rule rateFx_trans [OF rateFx_trans [OF 12 3] 4])
  have "reconfigureRole env r' d s =
          (case snd A of None \<Rightarrow> addTrace [Print LLog ''[Main] Capture initialized.''] (fst A)
           | Some e \<Rightarrow> (case snd B of None \<Rightarrow> fst B
                          | Some e2 \<Rightarrow> addTrace [Print LError ''[Main] Failed to initialize capture (Default):''] (fst B)))"
    by (simp add: reconfigureRole_alt A_def B_def s2_def s3w_def split: prod.splits option.splits)
  then show ?thesis
    using 12 14 by (auto split: option.splits intro: rateFx_trans rateFx_print)
qed

lemma reconfigureRole_stt_none [simp]:
  "(getSTT r (reconfigureRole env r' d s) = None) = (getSTT r s = None)"
proof -
  define A where "A = attach env r' ''[Main] Capture rate'' (orNull d)
      (addTrace [Print LLog ''[Main] Initializing capture...''] (dropOld r' s))"
  define B where "B = attach env r' ''[Main] Capture (Default) rate'' None
      (addTrace [Print LWarn ''[Main] Failed to initialize capture with preferred ID. Falling back to default.''] (fst A))"
  have a: "(getSTT r (fst A) = None) = (getSTT r s = None)"
    unfolding A_def by simp
  have b: "(getSTT r (fst B) = None) = (getSTT r s = None)"
    unfolding B_def using a by simp
  have "reconfigureRole env r' d s =
          (case snd A of None \<Rightarrow> addTrace [Print LLog ''[Main] Capture initialized.''] (fst A)
           | Some e \<Rightarrow> (case snd B of None \<Rightarrow> fst B
                          | Some e2 \<Rightarrow> addTrace [Print LError ''[Main] Failed to initialize capture (Default):''] (fst B)))"
    by (simp add: reconfigureRole_alt A_def B_def split: prod.splits option.splits)
  then show ?thesis
    using a b by (simp split: option.splits)
qed

lemma rate_order:
  assumes "getSTT r s \<noteq> None"
  shows "rate_set_before_data r (newEffects s (reconfigureAudio env i o' s))"
proof -
  define s0 where "s0 = addTrace [Print LLog ''[Main] Reconfiguring Audio''] s"
  define s1 where "s1 = reconfigureRole env SystemRole o' s0"
  have "rateFx r s s0" unfolding s0_def by (rule rateFx_print)
  moreover have "rateFx r s0 s1" unfolding s1_def
    by (rule rateFx_reconfigureRole) (use assms in \<open>auto simp: s0_def\<close>)
  moreover have "rateFx r s1 (reconfigureRole env MicRole i s1)"
    by (rule rateFx_reconfigureRole) (use assms in \<open>auto simp: s1_def s0_def\<close>)
  ultimately have "rateFx r s (reconfigureAudio env i o' s)"
    unfolding reconfigureAudio_def s1_def s0_def by (blast intro: rateFx_trans)
  then show ?thesis
    unfolding rateFx_def rate_set_before_data_def newEffects_def
    by (metis append_eq_conv_conj snd_conv)
qed

lemma on_simps [simp]:
  "getSampleRate (on h n l) = getSampleRate h"
  "listeners (on h n l) = listeners h @ [(n, l)]"
  by (simp_all add: on_def getSampleRate_def)

lemma newCapture_listeners: "newCapture env r d = Inr (h, acts) \<Longrightarrow> listeners h = []"
  by (auto simp: newCapture_def new_MicrophoneCapture_def split: option.splits sum.splits)

lemma attach_ok_wired:
  "snd (attach env r l d s) = None \<Longrightarrow> wired r (fst (attach env r l d s))"
  by (auto simp: attach_def Let_def wired_def GoogleSTT_setSampleRate_def
      dest: newCapture_listeners split: sum.splits option.splits prod.splits)

lemma attach_fail_unwired:
  "snd (attach env r l d s) = Some e \<Longrightarrow> unwired r s \<Longrightarrow> unwired r (fst (attach env r l d s))"
  by (auto simp: attach_def Let_def unwired_def
      dest: newCapture_listeners split: sum.splits option.splits prod.splits)

lemma attach_other:
  "r \<noteq> r' \<Longrightarrow> getCapture r (fst (attach env r' l d s)) = getCapture r s"
  "r \<noteq> r' \<Longrightarrow> getSTT r (fst (attach env r' l d s)) = getSTT r s"
  by (auto simp: attach_def Let_def split: sum.splits option.splits prod.splits)

lemma unwired_wired: "unwired r s \<Longrightarrow> wired r s"
  by (auto simp: unwired_def wired_def split: option.splits)

lemma wired_addTrace [simp]: "wired r (addTrace es s) = wired r s" "unwired r (addTrace es s) = unwired r s"
  by (simp_all add: wired_def unwired_def cong: option.case_cong)

lemma unwired_dropOld [simp]: "unwired r (dropOld r s)"
  by (simp add: unwired_def)

lemma reconfigureRole_cases:
  obtains (first) A where "A = attach env r ''[Main] Capture rate'' (orNull d)
              (addTrace [Print LLog ''[Main] Initializing capture...''] (dropOld r s))"
            "snd A = None" "reconfigureRole env r d s = addTrace [Print LLog ''[Main] Capture initialized.''] (fst A)"
  | (second) A B e where "A = attach env r ''[Main] Capture rate'' (orNull d)
              (addTrace [Print LLog ''[Main] Initializing capture...''] (dropOld r s))"
            "snd A = Some e"
            "B = attach env r ''[Main] Capture (Default) rate'' None
                  (addTrace [Print LWarn ''[Main] Failed to initialize capture with preferred ID. Falling back to default.''] (fst A))"
            "snd B = None" "reconfigureRole env r d s = fst B"
  | (neither) A B e e2 where "A = attach env r ''[Main] Capture rate'' (orNull d)
              (addTrace [Print LLog ''[Main] Initializing capture...''] (dropOld r s))"
            "snd A = Some e"
            "B = attach env r ''[Main] Capture (Default) rate'' None
                  (addTrace [Print LWarn ''[Main] Failed to initialize capture with preferred ID. Falling back to default.''] (fst A))"
            "snd B = Some e2"
            "reconfigureRole env r d s = addTrace [Print LError ''[Main] Failed to initialize capture (Default):''] (fst B)"
proof -
  define A where "A = attach env r ''[Main] Capture rate'' (orNull d)
      (addTrace [Print LLog ''[Main] Initializing capture...''] (dropOld r s))"
  define B where "B = attach env r ''[Main] Capture (Default) rate'' None
      (addTrace [Print LWarn ''[Main] Failed to initialize capture with preferred ID. Falling back to default.''] (fst A))"
  have eq: "reconfigureRole env r d s =
          (case snd A of None \<Rightarrow> addTrace [Print LLog ''[Main] Capture initialized.''] (fst A)
           | Some e \<Rightarrow> (case snd B of None \<Rightarrow> fst B
                          | Some e2 \<Rightarrow> addTrace [Print LError ''[Main] Failed to initialize capture (Default):''] (fst B)))"
    by (simp add: reconfigureRole_alt A_def B_def split: prod.splits option.splits)
  show thesis
  proof (cases "snd A")
    case None
    then show thesis using first [OF A_def] eq by simp
  next
    case (Some e)
    show thesis
    proof (cases "snd B")
      case None
      then show thesis using second [OF A_def Some B_def] eq Some by simp
    next
      case (Some e2)
      then show thesis using neither [OF A_def \<open>snd A = Some e\<close> B_def] eq \<open>snd A = Some e\<close> by simp
    qed
  qed
qed

lemma wired_reconfigureRole: "wired r (reconfigureRole env r d s)"
proof (cases rule: reconfigureRole_cases [of env r d s])
  case (first A)
  then show ?thesis using attach_ok_wired by simp
next
  case (second A B e)
  then show ?thesis using attach_ok_wired by simp
next
  case (neither A B e e2)
  have "unwired r (fst A)" using neither(1,2) attach_fail_unwired by simp
  then have "unwired r (fst B)" using neither(3,4) attach_fail_unwired by simp
  then show ?thesis using neither(5) unwired_wired by simp
qed

lemma reconfigureRole_other:
  assumes "r \<noteq> r'"
  shows "getCapture r (reconfigureRole env r' d s) = getCapture r s"
    and "getSTT r (reconfigureRole env r' d s) = getSTT r s"
  by (cases rule: reconfigureRole_cases [of env r' d s]; simp add: attach_other assms)+

lemma wired_cong:
  "getCapture r s = getCapture r s' \<Longrightarrow> getSTT r s = getSTT r s' \<Longrightarrow> wired r s = wired r s'"
  by (simp add: wired_def cong: option.case_cong)

lemma wired_reconfigureAudio: "wired r (reconfigureAudio env i o' s)"
proof (cases r)
  case SystemRole
  have "wired SystemRole (reconfigureRole env SystemRole o' (addTrace [Print LLog ''[Main] Reconfiguring Audio''] s))"
    by (rule wired_reconfigureRole)
  then show ?thesis
    unfolding reconfigureAudio_def SystemRole
    by (subst wired_cong [OF reconfigureRole_other(1) reconfigureRole_other(2)]) simp_all
next
  case MicRole
  then show ?thesis unfolding reconfigureAudio_def by (simp add: wired_reconfigureRole)
qed

lemma trace_dispatch_data:
  "wired r s \<Longrightarrow> getCapture r s = Some h \<Longrightarrow> getSampleRate h = Inr R \<Longrightarrow>
   getCapture r s' = getCapture r s \<Longrightarrow> getSTT r s' = getSTT r s \<Longrightarrow>
   trace (dispatch h (Data b) s') =
     trace s' @ (if listeners h = [] \<or> getSTT r s = None then [] else [SttWrite r R b])"
  by (auto simp: wired_def dispatch_def evnameOf_def split: option.splits)

lemma forwarded_rate:
  assumes "wired r s" "getCapture r s = Some h" "getSampleRate h = Inr R"
    "SttWrite r' R' b \<in> set (newEffects s (nativeChunk r c s))"
  shows "r' = r \<and> R' = R"
  using assms trace_dispatch_data [OF assms(1-3), of "addTrace [Capture r (Emit (Data b'))] s" for b']
  by (auto simp: nativeChunk_def onChunk_def newEffects_def split: option.splits if_splits)

lemma attach_success:
  assumes "newCapture env r d = Inr (h0, acts)" "getSampleRate h0 = Inr R"
  shows "snd (attach env r l d s) = None"
    and "getCapture r (fst (attach env r l d s)) =
           Some (on (on h0 EvData (WriteTo r)) EvError (LogError ''[Main] Capture Error:''))"
    and "getSTT r (fst (attach env r l d s)) = map_option (GoogleSTT_setSampleRate R) (getSTT r s)"
  using assms by (auto simp: attach_def Let_def split: option.splits)

lemma reconfigureRole_success:
  assumes "newCapture env r (orNull d) = Inr (h0, acts)" "getSampleRate h0 = Inr R"
  shows "getCapture r (reconfigureRole env r d s) =
           Some (on (on h0 EvData (WriteTo r)) EvError (LogError ''[Main] Capture Error:''))"
    and "getSTT r (reconfigureRole env r d s) = map_option (GoogleSTT_setSampleRate R) (getSTT r s)"
  using attach_success [OF assms]
  by (cases rule: reconfigureRole_cases [of env r d s]; simp)+

lemma reconfigureAudio_success:
  assumes "newCapture env r (orNull (deviceFor r i o')) = Inr (h0, acts)" "getSampleRate h0 = Inr R"
  shows "getCapture r (reconfigureAudio env i o' s) =
           Some (on (on h0 EvData (WriteTo r)) EvError (LogError ''[Main] Capture Error:''))"
    and "getSTT r (reconfigureAudio env i o' s) = map_option (GoogleSTT_setSampleRate R) (getSTT r s)"
  using assms reconfigureRole_success [OF assms(1) [unfolded deviceFor_def] assms(2)]
  by (cases r; simp add: reconfigureAudio_def deviceFor_def reconfigureRole_other
        reconfigureRole_success)+

lemma nativeChunk_wired:
  assumes "getCapture r s = Some h" "listeners h = [(EvData, WriteTo r), (EvError, l)]"
    "getSTT r s = Some t" "b \<noteq> []"
  shows "newEffects s (nativeChunk r (Some b) s) = [Capture r (Emit (Data b)), SttWrite r (sampleRate t) b]"
  using assms by (simp add: nativeChunk_def onChunk_def newEffects_def dispatch_def evnameOf_def)

text \<open>
  C2. During \<open>reconfigureAudio\<close>, for a role whose stream exists: in the effects of the
  call every \<open>data\<close> subscription of the role comes after the new source reported its rate
  and after the stream was configured with that same rate; whatever chunk the source of
  the role delivers afterwards reaches the stream only at the rate the source reports;
  and when the preferred device is constructed and reports rate \<open>R\<close>, the stream ends up
  configured with \<open>R\<close> and a non-empty chunk is written at \<open>R\<close>.
\<close>
theorem sample_rate_before_data:
  assumes "getSTT r s = Some t"
  shows "rate_set_before_data r (newEffects s (reconfigureAudio env i o' s))
       \<and> (\<forall>h R c r' R' b.
             getCapture r (reconfigureAudio env i o' s) = Some h \<and> getSampleRate h = Inr R
             \<and> SttWrite r' R' b \<in> set (newEffects (reconfigureAudio env i o' s)
                                          (nativeChunk r c (reconfigureAudio env i o' s)))
             \<longrightarrow> r' = r \<and> R' = R)
       \<and> (\<forall>h0 acts R b.
             newCapture env r (orNull (deviceFor r i o')) = Inr (h0, acts) \<and> getSampleRate h0 = Inr R
             \<and> b \<noteq> []
             \<longrightarrow> getSTT r (reconfigureAudio env i o' s) = Some (GoogleSTT_setSampleRate R t)
                 \<and> newEffects (reconfigureAudio env i o' s)
                      (nativeChunk r (Some b) (reconfigureAudio env i o' s))
                    = [Capture r (Emit (Data b)), SttWrite r R b])"
proof (intro conjI allI impI)
  show "rate_set_before_data r (newEffects s (reconfigureAudio env i o' s))"
    using assms by (simp add: rate_order)
next
  fix h R c r' R' b
  assume "getCapture r (reconfigureAudio env i o' s) = Some h \<and> getSampleRate h = Inr R
             \<and> SttWrite r' R' b \<in> set (newEffects (reconfigureAudio env i o' s)
                                          (nativeChunk r c (reconfigureAudio env i o' s)))"
  then show "r' = r" "R' = R"
    using forwarded_rate [OF wired_reconfigureAudio] by blast+
next
  fix h0 acts R and b :: buffer
  assume a: "newCapture env r (orNull (deviceFor r i o')) = Inr (h0, acts) \<and> getSampleRate h0 = Inr R \<and> b \<noteq> []"
  then have c: "getCapture r (reconfigureAudio env i o' s) =
           Some (on (on h0 EvData (WriteTo r)) EvError (LogError ''[Main] Capture Error:''))"
    and t: "getSTT r (reconfigureAudio env i o' s) = Some (GoogleSTT_setSampleRate R t)"
    using reconfigureAudio_success [of env r i o' h0 acts R s] assms by simp_all
  show "getSTT r (reconfigureAudio env i o' s) = Some (GoogleSTT_setSampleRate R t)" by (rule t)
  have l: "listeners (on (on h0 EvData (WriteTo r)) EvError (LogError ''[Main] Capture Error:''))
            = [(EvData, WriteTo r), (EvError, LogError ''[Main] Capture Error:'')]"
    using a newCapture_listeners [of env r "orNull (deviceFor r i o')" h0 acts] by simp
  show "newEffects (reconfigureAudio env i o' s) (nativeChunk r (Some b) (reconfigureAudio env i o' s))
          = [Capture r (Emit (Data b)), SttWrite r R b]"
    using nativeChunk_wired [OF c l t] a by (simp add: GoogleSTT_setSampleRate_def)
qed

theorem sample_rate_before_data_witness:
  "getSTT MicRole readyState = Some idleSTT
   \<and> rate_set_before_data MicRole
        (newEffects readyState (reconfigureAudio demoEnv (Some ''mic-2'') None readyState))"
proof -
  have h: "getSTT MicRole readyState = Some idleSTT"
    by (simp add: getSTT_def readyState_def)
  show ?thesis
    using h sample_rate_before_data [OF h, of demoEnv "Some ''mic-2''" None] by simp
qed

text \<open>
  C10. A \<open>data\<close> event of the microphone handle carries a chunk that is not \<open>null\<close> and
  not empty: the native callback emits only such chunks, \<open>start\<close> and \<open>stop\<close> emit no
  \<open>data\<close>, and a \<open>null\<close> or empty chunk changes nothing downstream.
\<close>
theorem data_chunks_nonempty:
  "(Emit (Data b) \<in> set (onChunk chunk) \<longrightarrow> chunk = Some b \<and> 0 < length b)
   \<and> Emit (Data b) \<notin> set (fst (snd (MicrophoneCapture_start h)))
   \<and> Emit (Data b) \<notin> set (snd (MicrophoneCapture_stop h))
   \<and> nativeChunk r None s = s \<and> nativeChunk r (Some []) s = s"
  by (auto simp: onChunk_def MicrophoneCapture_start_def MicrophoneCapture_stop_def nativeChunk_def
      split: option.splits if_splits)

theorem data_chunks_nonempty_witness:
  "Emit (Data [1, 2]) \<in> set (onChunk (Some [1, 2])) \<and> 0 < length [1::nat, 2]"
  using data_chunks_nonempty [of "[1, 2]" "Some [1, 2]"] by (simp add: onChunk_def)

text \<open>
  C5. The claim is that a handle can be started again after \<open>stop()\<close>. In the code
  \<open>stop()\<close> sets \<open>this.monitor = null\<close>, so for a handle whose native start succeeds,
  \<open>start(); stop(); start()\<close> ends in the guard \<open>Monitor not initialized\<close>: the handle
  is not recording and has no monitor left.
\<close>
theorem restart_after_stop_stays_stopped:
  "MicrophoneCapture_start (fst (MicrophoneCapture_stop (fst (MicrophoneCapture_start
      \<lparr>monitor = Some (m\<lparr>n_start := None\<rparr>), isRecording = False, deviceId = d, listeners = ls\<rparr>))))
   = (\<lparr>monitor = None, isRecording = False, deviceId = d, listeners = ls\<rparr>,
      [Console LError ''[MicrophoneCapture] Monitor not initialized''], None)"
  by (simp add: MicrophoneCapture_start_def MicrophoneCapture_stop_def)

text \<open>
  C6, as stated, fails on the path without a native monitor: \<open>start()\<close> logs and returns,
  and emits no \<open>error\<close> event.
\<close>
theorem start_without_monitor_emits_nothing:
  "MicrophoneCapture_start \<lparr>monitor = None, isRecording = False, deviceId = None, listeners = []\<rparr>
   = (\<lparr>monitor = None, isRecording = False, deviceId = None, listeners = []\<rparr>,
      [Console LError ''[MicrophoneCapture] Monitor not initialized''], None)"
  by (simp add: MicrophoneCapture_start_def)

text \<open>
  C6, amended. On a handle that is not recording: without a native monitor \<open>start()\<close>
  logs an error, emits nothing, changes nothing and returns; when the native start throws,
  \<open>start()\<close> emits an \<open>error\<close> event and leaves the handle unchanged (still not
  recording), and it returns normally when an \<open>error\<close> listener is registered.
\<close>
theorem start_failure_paths:
  "\<not> isRecording h \<Longrightarrow>
   (monitor h = None \<longrightarrow>
      MicrophoneCapture_start h = (h, [Console LError ''[MicrophoneCapture] Monitor not initialized''], None))
   \<and> (\<forall>m e. monitor h = Some m \<and> n_start m = Some e \<longrightarrow>
        fst (MicrophoneCapture_start h) = h
        \<and> Emit (Error e) \<in> set (fst (snd (MicrophoneCapture_start h)))
        \<and> (0 < listenerCount h EvError \<longrightarrow> snd (snd (MicrophoneCapture_start h)) = None))"
  by (auto simp: MicrophoneCapture_start_def emit_error_def)

theorem start_failure_paths_witness:
  "\<not> isRecording (wiredCapture MicRole\<lparr>monitor := Some (okNative\<lparr>n_start := Some ''busy''\<rparr>)\<rparr>)
   \<and> 0 < listenerCount (wiredCapture MicRole\<lparr>monitor := Some (okNative\<lparr>n_start := Some ''busy''\<rparr>)\<rparr>) EvError
   \<and> Emit (Error ''busy'')
        \<in> set (fst (snd (MicrophoneCapture_start
                 (wiredCapture MicRole\<lparr>monitor := Some (okNative\<lparr>n_start := Some ''busy''\<rparr>)\<rparr>))))
   \<and> snd (snd (MicrophoneCapture_start
                 (wiredCapture MicRole\<lparr>monitor := Some (okNative\<lparr>n_start := Some ''busy''\<rparr>)\<rparr>))) = None"
proof -
  have h: "\<not> isRecording (wiredCapture MicRole\<lparr>monitor := Some (okNative\<lparr>n_start := Some ''busy''\<rparr>)\<rparr>)"
    by (simp add: wiredCapture_def)
  have l: "0 < listenerCount (wiredCapture MicRole\<lparr>monitor := Some (okNative\<lparr>n_start := Some ''busy''\<rparr>)\<rparr>) EvError"
    by (simp add: wiredCapture_def listenerCount_def)
  show ?thesis
    using h l start_failure_paths [OF h] by simp
qed

text \<open>
  C1. Every segment that the router delivers for a transcript event of the system-audio
  stream has speaker \<open>interviewer\<close>, every one for an event of the microphone stream has
  speaker \<open>user\<close>, whatever the text, \<open>isFinal\<close> and confidence; and something is
  delivered for every event.
\<close>
theorem attribution:
  "(\<forall>e \<in> set (newEffects s (sttTranscript env SystemRole ev s)).
      \<exists>seg. (e = HandleTranscript seg \<or> (\<exists>w. e = WindowSend w seg)) \<and> speaker seg = interviewer)
   \<and> (\<forall>e \<in> set (newEffects s (sttTranscript env MicRole ev s)).
      \<exists>seg. (e = HandleTranscript seg \<or> (\<exists>w. e = WindowSend w seg)) \<and> speaker seg = user)
   \<and> newEffects s (sttTranscript env r ev s) \<noteq> []"
  by (cases r) (auto simp: newEffects_def sttTranscript_def googleSTT_onTranscript_def
      googleSTT_User_onTranscript_def routeTranscript_def Let_def)

theorem attribution_witness:
  "HandleTranscript \<lparr>speaker = interviewer, segText = ''hello'', timestamp = 1000, final = False,
                     confidence = 0.4\<rparr>
     \<in> set (newEffects readyState (sttTranscript demoEnv SystemRole helloEvent readyState))
   \<and> newEffects readyState (sttTranscript demoEnv MicRole helloEvent readyState) \<noteq> []"
proof -
  have "HandleTranscript \<lparr>speaker = interviewer, segText = ''hello'', timestamp = 1000, final = False,
                     confidence = 0.4\<rparr>
     \<in> set (newEffects readyState (sttTranscript demoEnv SystemRole helloEvent readyState))"
    by (simp add: newEffects_def sttTranscript_def googleSTT_onTranscript_def routeTranscript_def
        readyState_def demoEnv_def helloEvent_def Let_def)
  then show ?thesis
    using attribution [of readyState demoEnv helloEvent MicRole] by blast
qed

text \<open>
  C7, as stated, fails: the listener reads the clock twice, so with a clock that advances
  between the reads the intelligence consumer and the window get different timestamps.
\<close>
theorem two_clock_reads:
  "newEffects readyState (sttTranscript demoEnv MicRole helloEvent readyState) =
     [HandleTranscript \<lparr>speaker = user, segText = ''hello'', timestamp = 1000, final = False,
                        confidence = 0.4\<rparr>,
      WindowSend Launcher \<lparr>speaker = user, segText = ''hello'', timestamp = 1001, final = False,
                           confidence = 0.4\<rparr>]"
  by (simp add: newEffects_def sttTranscript_def googleSTT_User_onTranscript_def routeTranscript_def
      readyState_def demoEnv_def helloEvent_def Let_def)

text \<open>
  C7, amended. For every transcript event of a role the router delivers one segment to the
  intelligence consumer, stamped with one clock reading, and one payload, equal to it in
  speaker, text, \<open>final\<close> and confidence and stamped with the next clock reading, to each
  window that is present (launcher, then overlay); an absent window is skipped.
\<close>
theorem router_delivery:
  "newEffects s (sttTranscript env r ev s) =
     (let sp = (case r of SystemRole \<Rightarrow> interviewer | MicRole \<Rightarrow> user);
          seg = \<lparr>speaker = sp, segText = te_text ev, timestamp = dateNow env (clockReads s),
                 final = isFinal ev, confidence = te_confidence ev\<rparr>;
          payload = seg\<lparr>timestamp := dateNow env (Suc (clockReads s))\<rparr>
      in HandleTranscript seg
         # (if launcherWindow s then [WindowSend Launcher payload] else [])
         @ (if overlayWindow s then [WindowSend Overlay payload] else []))"
  by (cases r) (auto simp: newEffects_def sttTranscript_def googleSTT_onTranscript_def
      googleSTT_User_onTranscript_def routeTranscript_def Let_def)

lemma setCapture_same: "getCapture r s = c \<Longrightarrow> setCapture r c s = s"
  by (cases r) (auto simp: getCapture_def setCapture_def)

lemma setSTT_same: "getSTT r s = t \<Longrightarrow> setSTT r t s = s"
  by (cases r) (auto simp: getSTT_def setSTT_def)

lemma idle_addTrace [simp]: "idle r (addTrace es s) = idle r s"
  by (simp add: idle_def)

lemma stopCapture_idle: "idle r s \<Longrightarrow> stopCapture r s = s"
  by (auto simp: idle_def stopCapture_def MicrophoneCapture_stop_def setCapture_same split: option.splits)

lemma stopSTT_idle: "idle r s \<Longrightarrow> stopSTT r s = s"
  by (auto simp: idle_def stopSTT_def GoogleSTT_stop_def setSTT_same split: option.splits)

lemma endMeeting_idle:
  "idle SystemRole s \<Longrightarrow> idle MicRole s \<Longrightarrow>
   endMeeting env s =
     processCompletedMeetingForRAG env (addTrace [Print LLog ''[Main] Ending Meeting...'', StopMeeting] s)"
  by (simp add: endMeeting_def stopCapture_idle stopSTT_idle)

lemma stopCapture_alt:
  "stopCapture r s =
     (case getCapture r s of
        None \<Rightarrow> s
      | Some h \<Rightarrow>
          addTrace (map (Capture r) (snd (MicrophoneCapture_stop h)))
            (setCapture r (Some (fst (MicrophoneCapture_stop h))) s))"
  by (simp add: stopCapture_def case_prod_unfold perform_stop split: option.splits)

lemma stopCapture_view [simp]:
  "getSTT r' (stopCapture r s) = getSTT r' s"
  "ragManager (stopCapture r s) = ragManager s"
  "getCapture r' (stopCapture r s) =
     (if r' = r then map_option (\<lambda>h. fst (MicrophoneCapture_stop h)) (getCapture r s) else getCapture r' s)"
  by (auto simp: stopCapture_alt split: option.splits)

lemma stopSTT_view [simp]:
  "getCapture r' (stopSTT r s) = getCapture r' s"
  "ragManager (stopSTT r s) = ragManager s"
  "getSTT r' (stopSTT r s) = (if r' = r then map_option GoogleSTT_stop (getSTT r s) else getSTT r' s)"
  by (auto simp: stopSTT_def split: option.splits)

lemma rag_view [simp]:
  "getCapture r (processCompletedMeetingForRAG env s) = getCapture r s"
  "getSTT r (processCompletedMeetingForRAG env s) = getSTT r s"
  by (auto simp: processCompletedMeetingForRAG_def ragFailed_def Let_def
      split: sum.splits list.splits option.splits)

lemma idle_endMeeting: "idle r (endMeeting env s)"
  by (cases r)
     (auto simp: idle_def endMeeting_def MicrophoneCapture_stop_def GoogleSTT_stop_def
       split: option.splits)

text \<open>
  C4. A second \<open>stop()\<close> on a handle does nothing and reports nothing. When no component
  of the pipeline is active (each handle absent or never started, each stream absent or
  not listening), the four stops of \<open>endMeeting\<close> change nothing and add nothing to the
  trace: the call is the finalization and the post-session step alone. After any
  \<open>endMeeting\<close> every component is inactive, so this holds for a second call as well.
  No exception leaves \<open>stop\<close> or \<open>endMeeting\<close>: neither has a path that throws.
\<close>
theorem stop_idempotent:
  "MicrophoneCapture_stop (fst (MicrophoneCapture_stop h)) = (fst (MicrophoneCapture_stop h), [])
   \<and> (idle SystemRole s \<and> idle MicRole s \<longrightarrow>
        endMeeting env s =
          processCompletedMeetingForRAG env
            (addTrace [Print LLog ''[Main] Ending Meeting...'', StopMeeting] s))
   \<and> idle r (endMeeting env s)"
  by (simp add: endMeeting_idle idle_endMeeting MicrophoneCapture_stop_def)

theorem stop_idempotent_witness:
  "idle SystemRole readyState \<and> idle MicRole readyState
   \<and> endMeeting demoEnv readyState =
       processCompletedMeetingForRAG demoEnv
         (addTrace [Print LLog ''[Main] Ending Meeting...'', StopMeeting] readyState)"
proof -
  have h: "idle SystemRole readyState \<and> idle MicRole readyState"
    by (simp add: idle_def getCapture_def getSTT_def readyState_def wiredCapture_def idleSTT_def)
  show ?thesis
    using h stop_idempotent [of _ readyState demoEnv] by simp
qed




lemma stop_phase_rag [simp]:
  "ragManager (stopSTT MicRole (stopCapture MicRole (stopSTT SystemRole (stopCapture SystemRole
              (addTrace es s))))) = ragManager s"
  by simp








lemma roleView_simps [simp]:
  "roleView r (addTrace es s) = roleView r s"
  "roleView r (dropOld r s) = (None, getSTT r s)"
  by (simp_all add: roleView_def)

lemma attach_proj:
  assumes "roleView r s1 = roleView r s2"
  shows "roleView r (fst (attach env r l d s1)) = roleView r (fst (attach env r l d s2))"
    and "snd (attach env r l d s1) = snd (attach env r l d s2)"
  using assms
  by (auto simp: roleView_def attach_def Let_def split: sum.splits option.splits prod.splits)

lemma reconfigureRole_snd:
  "reconfigureRole env r d s =
     (let A = attach env r ''[Main] Capture rate'' (orNull d)
                (addTrace [Print LLog ''[Main] Initializing capture...''] (dropOld r s));
          B = attach env r ''[Main] Capture (Default) rate'' None
                (addTrace [Print LWarn ''[Main] Failed to initialize capture with preferred ID. Falling back to default.''] (fst A))
      in case snd A of
           None \<Rightarrow> addTrace [Print LLog ''[Main] Capture initialized.''] (fst A)
         | Some e \<Rightarrow>
             (case snd B of
                None \<Rightarrow> fst B
              | Some e2 \<Rightarrow> addTrace [Print LError ''[Main] Failed to initialize capture (Default):''] (fst B)))"
  by (simp add: reconfigureRole_alt Let_def split: prod.splits option.splits)

lemma reconfigureRole_proj:
  assumes "roleView r s1 = roleView r s2"
  shows "roleView r (reconfigureRole env r d s1) = roleView r (reconfigureRole env r d s2)"
proof -
  define X1 where "X1 = addTrace [Print LLog ''[Main] Initializing capture...''] (dropOld r s1)"
  define X2 where "X2 = addTrace [Print LLog ''[Main] Initializing capture...''] (dropOld r s2)"
  define A1 where "A1 = attach env r ''[Main] Capture rate'' (orNull d) X1"
  define A2 where "A2 = attach env r ''[Main] Capture rate'' (orNull d) X2"
  define Y1 where "Y1 = addTrace [Print LWarn ''[Main] Failed to initialize capture with preferred ID. Falling back to default.''] (fst A1)"
  define Y2 where "Y2 = addTrace [Print LWarn ''[Main] Failed to initialize capture with preferred ID. Falling back to default.''] (fst A2)"
  define B1 where "B1 = attach env r ''[Main] Capture (Default) rate'' None Y1"
  define B2 where "B2 = attach env r ''[Main] Capture (Default) rate'' None Y2"
  have x: "roleView r X1 = roleView r X2"
    using assms by (simp add: X1_def X2_def roleView_def)
  have a: "roleView r (fst A1) = roleView r (fst A2)" "snd A1 = snd A2"
    unfolding A1_def A2_def using attach_proj [OF x] by simp_all
  have y: "roleView r Y1 = roleView r Y2"
    using a(1) by (simp add: Y1_def Y2_def)
  have b: "roleView r (fst B1) = roleView r (fst B2)" "snd B1 = snd B2"
    unfolding B1_def B2_def using attach_proj [OF y] by simp_all
  have 1: "reconfigureRole env r d s1 =
      (case snd A1 of None \<Rightarrow> addTrace [Print LLog ''[Main] Capture initialized.''] (fst A1)
       | Some e \<Rightarrow> (case snd B1 of None \<Rightarrow> fst B1
           | Some e2 \<Rightarrow> addTrace [Print LError ''[Main] Failed to initialize capture (Default):''] (fst B1)))"
    by (simp add: reconfigureRole_snd Let_def A1_def B1_def X1_def Y1_def cong: option.case_cong)
  have 2: "reconfigureRole env r d s2 =
      (case snd A2 of None \<Rightarrow> addTrace [Print LLog ''[Main] Capture initialized.''] (fst A2)
       | Some e \<Rightarrow> (case snd B2 of None \<Rightarrow> fst B2
           | Some e2 \<Rightarrow> addTrace [Print LError ''[Main] Failed to initialize capture (Default):''] (fst B2)))"
    by (simp add: reconfigureRole_snd Let_def A2_def B2_def X2_def Y2_def cong: option.case_cong)
  show ?thesis
    unfolding 1 2 using a b by (simp split: option.splits)
qed

lemma reconfigureAudio_view:
  "roleView r (reconfigureAudio env i o' s) = roleView r (reconfigureRole env r (deviceFor r i o') s)"
proof (cases r)
  case SystemRole
  have "roleView SystemRole (reconfigureAudio env i o' s)
        = roleView SystemRole (reconfigureRole env SystemRole o' (addTrace [Print LLog ''[Main] Reconfiguring Audio''] s))"
    by (simp add: roleView_def reconfigureAudio_def reconfigureRole_other)
  also have "\<dots> = roleView SystemRole (reconfigureRole env SystemRole o' s)"
    by (rule reconfigureRole_proj) simp
  finally show ?thesis by (simp add: SystemRole deviceFor_def)
next
  case MicRole
  have "roleView MicRole (reconfigureRole env SystemRole o' (addTrace [Print LLog ''[Main] Reconfiguring Audio''] s))
        = roleView MicRole s"
    by (simp add: roleView_def reconfigureRole_other)
  then have "roleView MicRole (reconfigureAudio env i o' s) = roleView MicRole (reconfigureRole env MicRole i s)"
    unfolding reconfigureAudio_def by (rule reconfigureRole_proj)
  then show ?thesis by (simp add: MicRole deviceFor_def)
qed

lemma attach_ctor_fail:
  "newCapture env r d = Inl (e, acts) \<Longrightarrow>
   attach env r l d s = (addTrace (New r d # map (Capture r) acts) s, Some e)"
  by (simp add: attach_def)

lemma attach_trace_head:
  "\<exists>es. trace (fst (attach env r l d s)) = trace s @ New r d # es"
  by (auto simp: attach_def Let_def split: sum.splits option.splits prod.splits)

lemma dropOld_trace: "\<exists>es. trace (dropOld r s) = trace s @ es"
  by (auto simp: dropOld_def perform_stop split: option.splits)

lemma reconfigureRole_trace: "\<exists>es. trace (reconfigureRole env r d s) = trace s @ es"
proof -
  have "rateFx (case r of SystemRole \<Rightarrow> MicRole | MicRole \<Rightarrow> SystemRole) s (reconfigureRole env r d s)"
    by (rule rateFx_reconfigureRole) (cases r; simp)
  then show ?thesis unfolding rateFx_def by blast
qed

lemma reconfigureRole_fallback:
  assumes "newCapture env r (orNull d) = Inl (e, acts)"
  shows "reconfigureRole env r d s =
      (let B = attach env r ''[Main] Capture (Default) rate'' None
                 (addTrace ([Print LLog ''[Main] Initializing capture...'', New r (orNull d)]
                            @ map (Capture r) acts @ [Print LWarn fallbackWarning]) (dropOld r s))
       in case snd B of
            None \<Rightarrow> fst B
          | Some e2 \<Rightarrow> addTrace [Print LError ''[Main] Failed to initialize capture (Default):''] (fst B))"
  using attach_ctor_fail [OF assms]
  by (simp add: reconfigureRole_snd Let_def fallbackWarning_def cong: option.case_cong)

lemma reconfigureRole_fallback_trace:
  assumes "newCapture env r (orNull d) = Inl (e, acts)"
  shows "\<exists>pre post. trace (reconfigureRole env r d s) =
           trace s @ pre @ New r (orNull d) # map (Capture r) acts
             @ [Print LWarn fallbackWarning, New r None] @ post"
proof -
  define Y where "Y = addTrace ([Print LLog ''[Main] Initializing capture...'', New r (orNull d)]
                            @ map (Capture r) acts @ [Print LWarn fallbackWarning]) (dropOld r s)"
  define B where "B = attach env r ''[Main] Capture (Default) rate'' None Y"
  obtain p0 where p0: "trace (dropOld r s) = trace s @ p0" using dropOld_trace by blast
  obtain es where es: "trace (fst B) = trace Y @ New r None # es"
    unfolding B_def using attach_trace_head by blast
  have y: "trace Y = trace s @ (p0 @ [Print LLog ''[Main] Initializing capture...''])
                     @ New r (orNull d) # map (Capture r) acts @ [Print LWarn fallbackWarning]"
    using p0 by (simp add: Y_def)
  have eq: "reconfigureRole env r d s =
      (case snd B of None \<Rightarrow> fst B
       | Some e2 \<Rightarrow> addTrace [Print LError ''[Main] Failed to initialize capture (Default):''] (fst B))"
    by (simp only: reconfigureRole_fallback [OF assms] Let_def B_def Y_def)
  show ?thesis
  proof (cases "snd B")
    case None
    then have "trace (reconfigureRole env r d s) =
        trace s @ (p0 @ [Print LLog ''[Main] Initializing capture...''])
          @ New r (orNull d) # map (Capture r) acts
          @ [Print LWarn fallbackWarning, New r None] @ es"
      using eq es y by simp
    then show ?thesis by blast
  next
    case (Some e2)
    then have "trace (reconfigureRole env r d s) =
        trace s @ (p0 @ [Print LLog ''[Main] Initializing capture...''])
          @ New r (orNull d) # map (Capture r) acts
          @ [Print LWarn fallbackWarning, New r None]
          @ (es @ [Print LError ''[Main] Failed to initialize capture (Default):''])"
      using eq es y by simp
    then show ?thesis by blast
  qed
qed

lemma reconfigureRole_both_fail:
  assumes "newCapture env r (orNull d) = Inl (e, acts)" "newCapture env r None = Inl (e2, acts2)"
  shows "getCapture r (reconfigureRole env r d s) = None"
  using attach_ctor_fail [OF assms(2)]
  by (simp add: reconfigureRole_fallback [OF assms(1)] Let_def)

lemma reconfigureRole_default_ok:
  assumes "newCapture env r (orNull d) = Inl (e, acts)"
    "newCapture env r None = Inr (h0, acts0)" "getSampleRate h0 = Inr R"
  shows "roleView r (reconfigureRole env r d s) =
           (Some (on (on h0 EvData (WriteTo r)) EvError (LogError ''[Main] Capture Error:'')),
            map_option (GoogleSTT_setSampleRate R) (getSTT r s))"
  using attach_success [OF assms(2,3)]
  by (simp add: reconfigureRole_fallback [OF assms(1)] Let_def roleView_def)

lemma reconfigureAudio_fallback_trace:
  assumes "newCapture env r (orNull (deviceFor r i o')) = Inl (e, acts)"
  shows "\<exists>pre post. newEffects s (reconfigureAudio env i o' s) =
           pre @ New r (orNull (deviceFor r i o')) # map (Capture r) acts
             @ [Print LWarn fallbackWarning, New r None] @ post"
proof (cases r)
  case SystemRole
  define s0 where "s0 = addTrace [Print LLog ''[Main] Reconfiguring Audio''] s"
  define s1 where "s1 = reconfigureRole env SystemRole o' s0"
  obtain pre post where 1: "trace s1 = trace s0 @ pre
      @ New SystemRole (orNull o') # map (Capture SystemRole) acts
      @ [Print LWarn fallbackWarning, New SystemRole None] @ post"
    unfolding s1_def using reconfigureRole_fallback_trace [of env SystemRole o' e acts s0] assms SystemRole
    by (auto simp: deviceFor_def)
  obtain es where 2: "trace (reconfigureRole env MicRole i s1) = trace s1 @ es"
    using reconfigureRole_trace by blast
  have "newEffects s (reconfigureAudio env i o' s) =
          (Print LLog ''[Main] Reconfiguring Audio'' # pre)
          @ New SystemRole (orNull o') # map (Capture SystemRole) acts
          @ [Print LWarn fallbackWarning, New SystemRole None] @ (post @ es)"
    using 1 2 by (simp add: newEffects_def reconfigureAudio_def s1_def s0_def)
  then show ?thesis unfolding SystemRole deviceFor_def by (simp only: role.case) blast
next
  case MicRole
  define s0 where "s0 = addTrace [Print LLog ''[Main] Reconfiguring Audio''] s"
  define s1 where "s1 = reconfigureRole env SystemRole o' s0"
  obtain es where 1: "trace s1 = trace s0 @ es"
    unfolding s1_def using reconfigureRole_trace by blast
  obtain pre post where 2: "trace (reconfigureRole env MicRole i s1) = trace s1 @ pre
      @ New MicRole (orNull i) # map (Capture MicRole) acts
      @ [Print LWarn fallbackWarning, New MicRole None] @ post"
    using reconfigureRole_fallback_trace [of env MicRole i e acts s1] assms MicRole
    by (auto simp: deviceFor_def)
  have "newEffects s (reconfigureAudio env i o' s) =
          (Print LLog ''[Main] Reconfiguring Audio'' # es @ pre)
          @ New MicRole (orNull i) # map (Capture MicRole) acts
          @ [Print LWarn fallbackWarning, New MicRole None] @ post"
    using 1 2 by (simp add: newEffects_def reconfigureAudio_def s1_def s0_def)
  then show ?thesis unfolding MicRole deviceFor_def by (simp only: role.case) blast
qed

lemma reconfigureAudio_wires:
  assumes "newCapture env r (orNull (deviceFor r i o')) = Inr (h0, acts)" "getSampleRate h0 = Inr R"
  shows "roleView r (reconfigureAudio env i o' s) =
           (Some (on (on h0 EvData (WriteTo r)) EvError (LogError ''[Main] Capture Error:'')),
            map_option (GoogleSTT_setSampleRate R) (getSTT r s))"
  using reconfigureAudio_success [OF assms] by (simp add: roleView_def)

text \<open>
  C3. When constructing the source of a role with the requested device throws, the
  effects of \<open>reconfigureAudio\<close> contain that attempt (with what the constructor logged),
  the warning, and then an attempt with no device. When that one throws as well, the field
  of the role ends \<open>null\<close>; when it constructs a source that reports rate \<open>R\<close>, the field
  ends with that source, subscribed, and the stream of the role configured with \<open>R\<close>.
  The other role is unaffected: its source and stream end exactly as its own block alone
  leaves them, and when its preferred device constructs and reports a rate, it ends wired
  to that device.
\<close>
theorem fallback_to_default:
  assumes "newCapture env r (orNull (deviceFor r i o')) = Inl (e, acts)"
  shows "(\<exists>pre post. newEffects s (reconfigureAudio env i o' s) =
            pre @ New r (orNull (deviceFor r i o')) # map (Capture r) acts
              @ [Print LWarn fallbackWarning, New r None] @ post)
       \<and> (\<forall>e2 acts2. newCapture env r None = Inl (e2, acts2)
             \<longrightarrow> getCapture r (reconfigureAudio env i o' s) = None)
       \<and> (\<forall>h0 acts0 R. newCapture env r None = Inr (h0, acts0) \<and> getSampleRate h0 = Inr R
             \<longrightarrow> roleView r (reconfigureAudio env i o' s) =
                   (Some (on (on h0 EvData (WriteTo r)) EvError (LogError ''[Main] Capture Error:'')),
                    map_option (GoogleSTT_setSampleRate R) (getSTT r s)))
       \<and> (\<forall>r'. r' \<noteq> r \<longrightarrow>
             roleView r' (reconfigureAudio env i o' s)
               = roleView r' (reconfigureRole env r' (deviceFor r' i o') s)
             \<and> (\<forall>h1 acts1 R1. newCapture env r' (orNull (deviceFor r' i o')) = Inr (h1, acts1)
                     \<and> getSampleRate h1 = Inr R1
                   \<longrightarrow> roleView r' (reconfigureAudio env i o' s) =
                         (Some (on (on h1 EvData (WriteTo r')) EvError (LogError ''[Main] Capture Error:'')),
                          map_option (GoogleSTT_setSampleRate R1) (getSTT r' s))))"
proof (intro conjI allI impI)
  show "\<exists>pre post. newEffects s (reconfigureAudio env i o' s) =
            pre @ New r (orNull (deviceFor r i o')) # map (Capture r) acts
              @ [Print LWarn fallbackWarning, New r None] @ post"
    by (rule reconfigureAudio_fallback_trace [OF assms])
next
  fix e2 acts2 assume "newCapture env r None = Inl (e2, acts2)"
  then have "getCapture r (reconfigureRole env r (deviceFor r i o') s) = None"
    using reconfigureRole_both_fail [OF assms] by simp
  then show "getCapture r (reconfigureAudio env i o' s) = None"
    using reconfigureAudio_view [of r env i o' s] by (simp add: roleView_def)
next
  fix h0 acts0 R
  assume "newCapture env r None = Inr (h0, acts0) \<and> getSampleRate h0 = Inr R"
  then show "roleView r (reconfigureAudio env i o' s) =
                   (Some (on (on h0 EvData (WriteTo r)) EvError (LogError ''[Main] Capture Error:'')),
                    map_option (GoogleSTT_setSampleRate R) (getSTT r s))"
    using reconfigureRole_default_ok [OF assms, of h0 acts0 R s] reconfigureAudio_view [of r env i o' s]
    by simp
next
  fix r' show "roleView r' (reconfigureAudio env i o' s)
               = roleView r' (reconfigureRole env r' (deviceFor r' i o') s)"
    by (rule reconfigureAudio_view)
next
  fix r' h1 acts1 R1
  assume "newCapture env r' (orNull (deviceFor r' i o')) = Inr (h1, acts1) \<and> getSampleRate h1 = Inr R1"
  then show "roleView r' (reconfigureAudio env i o' s) =
                         (Some (on (on h1 EvData (WriteTo r')) EvError (LogError ''[Main] Capture Error:'')),
                          map_option (GoogleSTT_setSampleRate R1) (getSTT r' s))"
    using reconfigureAudio_wires by blast
qed

theorem fallback_to_default_witness:
  "newCapture noMicEnv MicRole (orNull (deviceFor MicRole (Some ''mic-2'') None))
     = Inl (''no input device'', [Console LLog ''[MicrophoneCapture] Initialized with device''])
   \<and> getCapture MicRole (reconfigureAudio noMicEnv (Some ''mic-2'') None activeState) = None
   \<and> roleView SystemRole (reconfigureAudio noMicEnv (Some ''mic-2'') None activeState)
       = (Some (wiredCapture SystemRole), Some (listeningSTT\<lparr>sampleRate := 48000\<rparr>))
   \<and> newCapture noMic2Env MicRole (orNull (deviceFor MicRole (Some ''mic-2'') None))
     = Inl (''mic-2 not found'', [Console LLog ''[MicrophoneCapture] Initialized with device''])
   \<and> roleView MicRole (reconfigureAudio noMic2Env (Some ''mic-2'') None activeState)
       = (Some (wiredCapture MicRole), Some (listeningSTT\<lparr>sampleRate := 48000\<rparr>))"
proof -
  have h: "newCapture noMicEnv MicRole (orNull (deviceFor MicRole (Some ''mic-2'') None))
     = Inl (''no input device'', [Console LLog ''[MicrophoneCapture] Initialized with device''])"
    by (simp add: newCapture_def new_MicrophoneCapture_def noMicEnv_def demoEnv_def orNull_def deviceFor_def)
  have h2: "newCapture noMicEnv MicRole None
     = Inl (''no input device'', [Console LLog ''[MicrophoneCapture] Initialized with device''])"
    by (simp add: newCapture_def new_MicrophoneCapture_def noMicEnv_def demoEnv_def orNull_def)
  have hs: "newCapture noMicEnv SystemRole (orNull (deviceFor SystemRole (Some ''mic-2'') None))
     = Inr (\<lparr>monitor = Some okNative, isRecording = False, deviceId = None, listeners = []\<rparr>,
            [Console LLog ''[MicrophoneCapture] Initialized with device''])"
    by (simp add: newCapture_def new_MicrophoneCapture_def noMicEnv_def demoEnv_def orNull_def deviceFor_def)
  have k: "newCapture noMic2Env MicRole (orNull (deviceFor MicRole (Some ''mic-2'') None))
     = Inl (''mic-2 not found'', [Console LLog ''[MicrophoneCapture] Initialized with device''])"
    by (simp add: newCapture_def new_MicrophoneCapture_def noMic2Env_def demoEnv_def orNull_def deviceFor_def)
  have k2: "newCapture noMic2Env MicRole None
     = Inr (\<lparr>monitor = Some okNative, isRecording = False, deviceId = None, listeners = []\<rparr>,
            [Console LLog ''[MicrophoneCapture] Initialized with device''])"
    by (simp add: newCapture_def new_MicrophoneCapture_def noMic2Env_def demoEnv_def orNull_def)
  have r: "getSampleRate \<lparr>monitor = Some okNative, isRecording = False, deviceId = None, listeners = []\<rparr>
            = Inr 48000"
    by (simp add: getSampleRate_def okNative_def)
  have w: "on (on \<lparr>monitor = Some okNative, isRecording = False, deviceId = None, listeners = []\<rparr>
                 EvData (WriteTo q)) EvError (LogError ''[Main] Capture Error:'') = wiredCapture q" for q
    by (simp add: on_def wiredCapture_def)
  have t: "map_option (GoogleSTT_setSampleRate 48000) (getSTT q activeState)
            = Some (listeningSTT\<lparr>sampleRate := 48000\<rparr>)" for q
    by (cases q) (simp_all add: getSTT_def activeState_def GoogleSTT_setSampleRate_def)
  have 1: "getCapture MicRole (reconfigureAudio noMicEnv (Some ''mic-2'') None activeState) = None"
    using fallback_to_default [OF h, of activeState] h2 by blast
  have 2: "roleView SystemRole (reconfigureAudio noMicEnv (Some ''mic-2'') None activeState)
       = (Some (wiredCapture SystemRole), Some (listeningSTT\<lparr>sampleRate := 48000\<rparr>))"
    using fallback_to_default [OF h, of activeState] hs r w [of SystemRole] t [of SystemRole]
    by (metis role.distinct(1))
  have 3: "roleView MicRole (reconfigureAudio noMic2Env (Some ''mic-2'') None activeState)
       = (Some (wiredCapture MicRole), Some (listeningSTT\<lparr>sampleRate := 48000\<rparr>))"
    using fallback_to_default [OF k, of activeState] k2 r w [of MicRole] t [of MicRole]
    by metis
  show ?thesis using h k 1 2 3 by simp
qed

lemma runListener_capture [simp]: "getCapture r (runListener l ev s) = getCapture r s"
  by (cases "(l, ev, s)" rule: runListener.cases) (auto split: option.splits)

lemma fold_runListener_capture [simp]:
  "getCapture r (fold (\<lambda>l. runListener l ev) ls s) = getCapture r s"
  by (induction ls arbitrary: s) auto

lemma perform_capture [simp]: "getCapture r' (perform r h acts s) = getCapture r' s"
  by (induction acts arbitrary: s) (auto simp: dispatch_def split: action.splits)

lemma startCapture_snd:
  "snd (startCapture r s) =
     (case getCapture r s of None \<Rightarrow> None | Some h \<Rightarrow> snd (snd (MicrophoneCapture_start h)))"
  by (simp add: startCapture_def split: option.splits prod.splits)

lemma startCapture_returns:
  "(\<forall>h. getCapture r s = Some h \<longrightarrow> 0 < listenerCount h EvError) \<Longrightarrow> snd (startCapture r s) = None"
  by (auto simp: startCapture_snd MicrophoneCapture_start_def emit_error_def split: option.splits)

lemma startCapture_other:
  "r' \<noteq> r \<Longrightarrow> getCapture r' (fst (startCapture r s)) = getCapture r' s"
  by (simp add: startCapture_def split: option.splits prod.splits)

lemma startSTT_capture [simp]: "getCapture r' (startSTT r s) = getCapture r' s"
  by (simp add: startSTT_def split: option.splits)

lemma startMeeting_snd:
  "snd (startMeeting env (Some \<lparr>audio = Some a\<rparr>) s) =
     (let s2 = reconfigureAudio env (inputDeviceId a) (outputDeviceId a)
                 (addTrace [SetMeetingMetadata] (addTrace [Print LLog ''[Main] Starting Meeting...''] s))
      in case snd (startCapture SystemRole s2) of
           Some e \<Rightarrow> Some e
         | None \<Rightarrow> snd (startCapture MicRole (startSTT SystemRole (fst (startCapture SystemRole s2)))))"
  by (simp add: startMeeting_def Let_def split: prod.splits option.splits)

lemma mic_after:
  "getCapture MicRole (reconfigureAudio lostEnv (Some ''mic-2'') None s)
     = Some \<lparr>monitor = Some lostNative, isRecording = False, deviceId = Some ''mic-2'', listeners = []\<rparr>"
proof -
  have "getCapture MicRole (reconfigureRole lostEnv MicRole (Some ''mic-2'') s)
     = Some \<lparr>monitor = Some lostNative, isRecording = False, deviceId = Some ''mic-2'', listeners = []\<rparr>"
    by (simp add: reconfigureRole_snd Let_def attach_def newCapture_def new_MicrophoneCapture_def
        lostEnv_def demoEnv_def orNull_def getSampleRate_def lostNative_def cong: option.case_cong)
  then show ?thesis
    using reconfigureAudio_view [of MicRole lostEnv "Some ''mic-2''" None s]
    by (simp add: roleView_def deviceFor_def)
qed

lemma sys_after:
  "getCapture SystemRole (reconfigureAudio lostEnv (Some ''mic-2'') None s)
     = Some (wiredCapture SystemRole)"
proof -
  have "getCapture SystemRole (reconfigureRole lostEnv SystemRole None s)
     = Some (wiredCapture SystemRole)"
    by (simp add: reconfigureRole_snd Let_def attach_def newCapture_def new_MicrophoneCapture_def
        lostEnv_def demoEnv_def orNull_def getSampleRate_def okNative_def wiredCapture_def on_def
        cong: option.case_cong)
  then show ?thesis
    using reconfigureAudio_view [of SystemRole lostEnv "Some ''mic-2''" None s]
    by (simp add: roleView_def deviceFor_def)
qed

text \<open>
  C8. The claim is that no exception leaves \<open>reconfigureAudio\<close>, \<open>startMeeting\<close> or
  \<open>endMeeting\<close>. \<open>reconfigureAudio\<close> stores the new source in the field before it
  reads the rate and subscribes to \<open>error\<close>. With a microphone whose native
  \<open>getSampleRate\<close> throws after construction, and no default device to fall back to, the
  field keeps a source without an \<open>error\<close> listener; its native \<open>start\<close> throws too, so
  \<open>emit('error')\<close> throws out of \<open>start()\<close> and \<open>startMeeting\<close> rejects.
\<close>
theorem half_wired_start_throws:
  "snd (startMeeting lostEnv (Some mic2Meeting) readyState) = Some ''device lost''"
  by (simp add: mic2Meeting_def startMeeting_snd Let_def startCapture_snd sys_after mic_after
      startCapture_other MicrophoneCapture_start_def wiredCapture_def okNative_def lostNative_def
      emit_error_def listenerCount_def)

end
